theory Spec2Isabelle
  imports
    Main
    "HOL-Library.Sublist"
    "HOL-Library.Char_ord"
    "HOL-Library.List_Lexorder"
    "HOL-Library.Word"
begin

unbundle bit_operations_syntax

section \<open>Python strings\<close>

text \<open>
  A Python \<open>str\<close> is a sequence of code points. It is modelled as a \<^typ>\<open>string\<close>, each
  \<^typ>\<open>char\<close> standing for the code point of the same number (U+0000 to U+00FF); \<open>len\<close> is
  \<^const>\<open>length\<close>, \<open>s[:n]\<close> is \<^const>\<open>take\<close>, \<open>a + b\<close> is \<open>a @ b\<close>, and truthiness
  of a string (\<open>if s\<close>, \<open>not s\<close>, \<open>a or b\<close>) is being different from \<open>''''\<close>.
\<close>

text \<open>\<open>sub in s\<close>: \<open>sub\<close> occurs in \<open>s\<close> as a contiguous substring.\<close>

fun py_in :: "string \<Rightarrow> string \<Rightarrow> bool" where
  "py_in sub [] = (sub = [])"
| "py_in sub (c # s) = (prefix sub (c # s) \<or> py_in sub s)"

text \<open>
  \<open>str.lower()\<close>: on the code points below 256 it moves \<open>A\<close> to \<open>Z\<close> and the Latin-1
  capitals U+00C0 to U+00DE (the multiplication sign U+00D7 apart) up by 32 and leaves every
  other code point alone.
\<close>

definition lower_char :: "char \<Rightarrow> char" where
  "lower_char c =
     (let n = (of_char c :: nat)
      in if (65 \<le> n \<and> n \<le> 90) \<or> (192 \<le> n \<and> n \<le> 222 \<and> n \<noteq> 215)
         then char_of (n + 32) else c)"

definition py_lower :: "string \<Rightarrow> string" where
  "py_lower s = map lower_char s"

text \<open>\<open>s.rstrip("/")\<close>: drop every \<open>/\<close> at the end.\<close>

definition rstrip_slash :: "string \<Rightarrow> string" where
  "rstrip_slash s = rev (dropWhile (\<lambda>c. c = CHR ''/'') (rev s))"

text \<open>\<open>s.split("/")[-1]\<close>: what follows the last \<open>/\<close>, the whole string when there is none.
  \<open>split\<close> always returns at least one piece, so the index never fails.\<close>

definition last_segment :: "string \<Rightarrow> string" where
  "last_segment s = rev (takeWhile (\<lambda>c. c \<noteq> CHR ''/'') (rev s))"

text \<open>\<open>str.strip()\<close>: drop white space at both ends. Below 256 the code points Python
  counts as white space are 9 to 13, 28 to 32, 133 and 160.\<close>

definition is_space :: "char \<Rightarrow> bool" where
  "is_space c =
     (let n = (of_char c :: nat)
      in (9 \<le> n \<and> n \<le> 13) \<or> (28 \<le> n \<and> n \<le> 32) \<or> n = 133 \<or> n = 160)"

definition py_strip :: "string \<Rightarrow> string" where
  "py_strip s = rev (dropWhile is_space (rev (dropWhile is_space s)))"

text \<open>\<open>s.replace(old, new)\<close> for a one-character \<open>old\<close>: every occurrence, left to right.\<close>

definition replace_char :: "char \<Rightarrow> string \<Rightarrow> string \<Rightarrow> string" where
  "replace_char old new s = concat (map (\<lambda>c. if c = old then new else [c]) s)"

text \<open>\<open>sep.join(lines)\<close>.\<close>

fun py_join :: "string \<Rightarrow> string list \<Rightarrow> string" where
  "py_join sep [] = []"
| "py_join sep [l] = l"
| "py_join sep (l # ls) = l @ sep @ py_join sep ls"

text \<open>\<open>d.get(k, default)\<close> on a dictionary.\<close>

definition dict_get :: "('k \<rightharpoonup> 'v) \<Rightarrow> 'k \<Rightarrow> 'v \<Rightarrow> 'v" where
  "dict_get d k dflt = (case d k of None \<Rightarrow> dflt | Some v \<Rightarrow> v)"

section \<open>Classification: \<open>map_google_category\<close>\<close>

definition cat_solar_panels :: string where
  "cat_solar_panels = ''Hardware > Power & Electrical Supplies > Solar Panels''"

definition cat_batteries :: string where
  "cat_batteries = ''Hardware > Power & Electrical Supplies > Power Storage Batteries''"

definition cat_charging :: string where
  "cat_charging =
     ''Vehicles & Parts > Vehicle Parts & Accessories > Motor Vehicle Electronics > Motor Vehicle Charging''"

definition cat_cables :: string where
  "cat_cables = ''Hardware > Power & Electrical Supplies > Electrical Wires & Cable''"

definition cat_solar_kits :: string where
  "cat_solar_kits = ''Hardware > Power & Electrical Supplies > Solar Energy Kits''"

definition cat_power_inverters :: string where
  "cat_power_inverters = ''Hardware > Power & Electrical Supplies > Power Inverters''"

text \<open>The \<open>if\<close>/\<open>elif\<close> chain of the source, on \<open>path = url.lower()\<close>.\<close>

definition map_google_category :: "string \<Rightarrow> string" where
  "map_google_category url =
     (let path = py_lower url
      in if py_in ''solar-panel'' path \<or> py_in ''gunes-paneli'' path
         then cat_solar_panels
         else if py_in ''lityum-pil'' path \<or> py_in ''batarya'' path
              \<or> py_in ''reserva'' path \<or> py_in ''enerji-depolama'' path
         then cat_batteries
         else if py_in ''sarj-cihazi'' path \<or> py_in ''wattpilot'' path
              \<or> py_in ''sarj-kablosu'' path \<or> py_in ''ev-sarj'' path
         then cat_charging
         else if py_in ''solar-kablo'' path \<or> py_in ''konnektor'' path \<or> py_in ''kablo'' path
         then cat_cables
         else if py_in ''solar-malzeme'' path \<or> py_in ''pano'' path \<or> py_in ''sigorta'' path
         then cat_solar_kits
         else cat_power_inverters)"

text \<open>
  The same chain read as data, the way the specification words it: an ordered list of
  groups, each a set of substring patterns with its category, scanned from the top; the
  first group one of whose patterns occurs in the text decides, and the default is taken
  when none does.
\<close>

definition category_rules :: "(string list \<times> string) list" where
  "category_rules =
     [([''solar-panel'', ''gunes-paneli''], cat_solar_panels),
      ([''lityum-pil'', ''batarya'', ''reserva'', ''enerji-depolama''], cat_batteries),
      ([''sarj-cihazi'', ''wattpilot'', ''sarj-kablosu'', ''ev-sarj''], cat_charging),
      ([''solar-kablo'', ''konnektor'', ''kablo''], cat_cables),
      ([''solar-malzeme'', ''pano'', ''sigorta''], cat_solar_kits)]"

definition group_matches :: "string list \<Rightarrow> string \<Rightarrow> bool" where
  "group_matches pats text = list_ex (\<lambda>p. py_in p text) pats"

fun first_match :: "(string list \<times> string) list \<Rightarrow> string \<Rightarrow> string \<Rightarrow> string" where
  "first_match [] dflt text = dflt"
| "first_match ((pats, cat) # rules) dflt text =
     (if group_matches pats text then cat else first_match rules dflt text)"

section \<open>The page fetcher: \<open>fetch_url\<close>\<close>

text \<open>
  The network is an input of the model: \<open>net attempt\<close> is what the \<open>attempt\<close>-th request
  for one URL gives, \<open>Some\<close> of the decoded body, or \<open>None\<close> when \<open>urlopen\<close> raises (every
  exception is caught alike). The loop returns the first body it gets; after the last of
  the \<open>retries + 1\<close> attempts has failed it returns \<open>None\<close>. The one-second sleep between
  attempts has no part in the result.
\<close>

function fetch_from :: "(nat \<Rightarrow> 'a option) \<Rightarrow> nat \<Rightarrow> nat \<Rightarrow> 'a option" where
  "fetch_from net retries attempt =
     (case net attempt of
        Some body \<Rightarrow> Some body
      | None \<Rightarrow> if attempt < retries then fetch_from net retries (attempt + 1) else None)"
  by pat_completeness auto
termination
  by (relation "measure (\<lambda>(net, retries, attempt). retries - attempt)") auto

definition fetch_url :: "(nat \<Rightarrow> 'a option) \<Rightarrow> 'a option" where
  "fetch_url net = fetch_from net 2 0"

section \<open>The URL discoverer: \<open>get_product_urls\<close>\<close>

definition product_prefix :: string where
  "product_prefix = ''https://www.turkiyesolarmarket.com.tr/urunler/''"

text \<open>
  One attempt of the pattern \<open><loc>(https://www\.turkiyesolarmarket\.com\.tr/urunler/[^<]+)</loc>\<close>
  at the head of a text: the literal opening, then the longest run of characters other
  than \<open><\<close>, which must not be empty and must be followed by \<open></loc>\<close> (a shorter run
  would be followed by a character of the run, never by \<open><\<close>, so backtracking finds
  nothing more). The result is the captured group and the length of the whole match.
\<close>

definition match_loc :: "string \<Rightarrow> (string \<times> nat) option" where
  "match_loc text =
     (let opening = ''<loc>'' @ product_prefix
      in if prefix opening text
         then (let body = drop (length opening) text;
                   name = takeWhile (\<lambda>c. c \<noteq> CHR ''<'') body;
                   rest = dropWhile (\<lambda>c. c \<noteq> CHR ''<'') body
               in if name \<noteq> [] \<and> prefix ''</loc>'' rest
                  then Some (product_prefix @ name, length opening + length name + 6)
                  else None)
         else None)"

text \<open>\<open>re.findall\<close>: matches from left to right, the search going on where the last match
  ended; \<open>skip\<close> counts the characters of that match still to pass over.\<close>

fun find_locs :: "nat \<Rightarrow> string \<Rightarrow> string list" where
  "find_locs skip [] = []"
| "find_locs skip (c # s) =
     (if 0 < skip then find_locs (skip - 1) s
      else case match_loc (c # s) of
             Some (url, n) \<Rightarrow> url # find_locs (n - 1) s
           | None \<Rightarrow> find_locs 0 s)"

text \<open>\<open>None\<close> stands for \<open>sys.exit(1)\<close> after the line \<open>ERROR: Could not fetch sitemap\<close>.\<close>

definition get_product_urls :: "(nat \<Rightarrow> string option) \<Rightarrow> string list option" where
  "get_product_urls sitemap_net =
     (case fetch_url sitemap_net of
        None \<Rightarrow> None
      | Some content \<Rightarrow> if content = '''' then None else Some (find_locs 0 content))"

section \<open>Pages and structured data\<close>

text \<open>
  The regular-expression scans of a page and the JSON parser are library code. A fetched
  page is modelled by its text together with what the scans find in it:
  \<^item> \<open>ld_blocks\<close>: the \<open>application/ld+json\<close> script blocks in page order, each \<open>Some\<close> of
    the parsed document, or \<open>None\<close> when \<open>json.loads\<close> raises \<open>JSONDecodeError\<close>;
  \<^item> \<open>og_matches\<close>: the \<open>og:\<close> meta tags in page order, name and unescaped content;
  \<^item> \<open>meta_description\<close>: the unescaped content of the first description meta tag.

  A parsed document is a JSON object. The members the script reads are taken to be JSON
  strings (\<open>@type\<close>, \<open>sku\<close>, \<open>name\<close>, \<open>description\<close>, \<open>image\<close>, \<open>mpn\<close>, \<open>gtin13\<close>,
  \<open>gtin\<close>, \<open>category\<close>), and \<open>offers\<close> and \<open>brand\<close> to be objects with string members
  (\<open>price\<close>, \<open>priceCurrency\<close>, \<open>availability\<close>, \<open>itemCondition\<close>; \<open>name\<close>), each present or
  absent. Documents with other JSON types in these places are outside the model.
\<close>

type_synonym dict = "string \<rightharpoonup> string"

record jsonld =
  ld_members :: dict
  ld_offers :: "dict option"
  ld_brand :: "dict option"

record page =
  html :: string
  ld_blocks :: "jsonld option list"
  og_matches :: "(string \<times> string) list"
  meta_description :: "string option"

text \<open>The first block that parses and whose \<open>@type\<close> is \<open>Product\<close>; a block that does not
  parse is passed over.\<close>

fun first_product :: "jsonld option list \<Rightarrow> jsonld option" where
  "first_product [] = None"
| "first_product (None # blocks) = first_product blocks"
| "first_product (Some data # blocks) =
     (if ld_members data ''@type'' = Some ''Product'' then Some data else first_product blocks)"

definition extract_product_jsonld :: "page \<Rightarrow> jsonld option" where
  "extract_product_jsonld pg = first_product (ld_blocks pg)"

text \<open>A later tag of the same name overwrites an earlier one; the description meta tag is
  stored last, under \<open>meta_description\<close>.\<close>

definition extract_og_tags :: "page \<Rightarrow> dict" where
  "extract_og_tags pg =
     (let tags = foldl (\<lambda>t (k, v). t(k \<mapsto> v)) Map.empty (og_matches pg)
      in case meta_description pg of
           None \<Rightarrow> tags
         | Some d \<Rightarrow> tags(''meta_description'' \<mapsto> d))"

section \<open>MD5\<close>

text \<open>
  \<open>hashlib.md5(s.encode()).hexdigest()\<close>: the UTF-8 encoding of the string, then the MD5
  digest of RFC 1321 in lowercase hexadecimal. A code point below 128 is one byte, one
  from 128 to 255 is two.
\<close>

type_synonym byte = "8 word"
type_synonym u32 = "32 word"

definition utf8_char :: "char \<Rightarrow> byte list" where
  "utf8_char c =
     (let n = (of_char c :: nat)
      in if n < 128 then [of_nat n]
         else [of_nat (192 + n div 64), of_nat (128 + n mod 64)])"

definition py_encode :: "string \<Rightarrow> byte list" where
  "py_encode s = concat (map utf8_char s)"

definition md5_K :: "u32 list" where
  "md5_K =
    [0xd76aa478, 0xe8c7b756, 0x242070db, 0xc1bdceee, 0xf57c0faf, 0x4787c62a, 0xa8304613, 0xfd469501,
     0x698098d8, 0x8b44f7af, 0xffff5bb1, 0x895cd7be, 0x6b901122, 0xfd987193, 0xa679438e, 0x49b40821,
     0xf61e2562, 0xc040b340, 0x265e5a51, 0xe9b6c7aa, 0xd62f105d, 0x02441453, 0xd8a1e681, 0xe7d3fbc8,
     0x21e1cde6, 0xc33707d6, 0xf4d50d87, 0x455a14ed, 0xa9e3e905, 0xfcefa3f8, 0x676f02d9, 0x8d2a4c8a,
     0xfffa3942, 0x8771f681, 0x6d9d6122, 0xfde5380c, 0xa4beea44, 0x4bdecfa9, 0xf6bb4b60, 0xbebfbc70,
     0x289b7ec6, 0xeaa127fa, 0xd4ef3085, 0x04881d05, 0xd9d4d039, 0xe6db99e5, 0x1fa27cf8, 0xc4ac5665,
     0xf4292244, 0x432aff97, 0xab9423a7, 0xfc93a039, 0x655b59c3, 0x8f0ccc92, 0xffeff47d, 0x85845dd1,
     0x6fa87e4f, 0xfe2ce6e0, 0xa3014314, 0x4e0811a1, 0xf7537e82, 0xbd3af235, 0x2ad7d2bb, 0xeb86d391]"

definition md5_S :: "nat list" where
  "md5_S =
    [7, 12, 17, 22, 7, 12, 17, 22, 7, 12, 17, 22, 7, 12, 17, 22,
     5, 9, 14, 20, 5, 9, 14, 20, 5, 9, 14, 20, 5, 9, 14, 20,
     4, 11, 16, 23, 4, 11, 16, 23, 4, 11, 16, 23, 4, 11, 16, 23,
     6, 10, 15, 21, 6, 10, 15, 21, 6, 10, 15, 21, 6, 10, 15, 21]"

text \<open>Padding: the byte \<open>0x80\<close>, zero bytes up to 56 modulo 64, then the length of the
  message in bits as eight bytes, least significant first.\<close>

definition md5_pad :: "byte list \<Rightarrow> byte list" where
  "md5_pad msg =
     (let bits = (of_nat (8 * length msg) :: 64 word)
      in msg @ [0x80] @ replicate ((119 - length msg mod 64) mod 64) 0
           @ map (\<lambda>i. ucast (drop_bit (8 * i) bits)) [0..<8])"

fun le_words :: "byte list \<Rightarrow> u32 list" where
  "le_words (b0 # b1 # b2 # b3 # bs) =
     (ucast b0 OR push_bit 8 (ucast b1) OR push_bit 16 (ucast b2) OR push_bit 24 (ucast b3))
       # le_words bs"
| "le_words _ = []"

fun chunks16 :: "u32 list \<Rightarrow> u32 list list" where
  "chunks16 [] = []"
| "chunks16 ws = take 16 ws # chunks16 (drop 16 ws)"

definition rotl32 :: "u32 \<Rightarrow> nat \<Rightarrow> u32" where
  "rotl32 x n = push_bit n x OR drop_bit (32 - n) x"

definition md5_step :: "u32 list \<Rightarrow> u32 \<times> u32 \<times> u32 \<times> u32 \<Rightarrow> nat \<Rightarrow> u32 \<times> u32 \<times> u32 \<times> u32" where
  "md5_step M st i =
     (case st of (A, B, C, D) \<Rightarrow>
        let (F, g) =
              (if i < 16 then ((B AND C) OR (NOT B AND D), i)
               else if i < 32 then ((D AND B) OR (NOT D AND C), (5 * i + 1) mod 16)
               else if i < 48 then (B XOR C XOR D, (3 * i + 5) mod 16)
               else (C XOR (B OR NOT D), (7 * i) mod 16));
            F' = F + A + md5_K ! i + M ! g
        in (D, B + rotl32 F' (md5_S ! i), B, C))"

definition md5_block :: "u32 \<times> u32 \<times> u32 \<times> u32 \<Rightarrow> u32 list \<Rightarrow> u32 \<times> u32 \<times> u32 \<times> u32" where
  "md5_block st M =
     (case (st, foldl (md5_step M) st [0..<64]) of
        ((a0, b0, c0, d0), (A, B, C, D)) \<Rightarrow> (a0 + A, b0 + B, c0 + C, d0 + D))"

definition le_bytes :: "u32 \<Rightarrow> byte list" where
  "le_bytes w = [ucast w, ucast (drop_bit 8 w), ucast (drop_bit 16 w), ucast (drop_bit 24 w)]"

definition md5_digest :: "byte list \<Rightarrow> byte list" where
  "md5_digest msg =
     (case foldl md5_block (0x67452301, 0xefcdab89, 0x98badcfe, 0x10325476)
             (chunks16 (le_words (md5_pad msg))) of
        (a, b, c, d) \<Rightarrow> le_bytes a @ le_bytes b @ le_bytes c @ le_bytes d)"

definition hex_digit :: "nat \<Rightarrow> char" where
  "hex_digit n = ''0123456789abcdef'' ! (n mod 16)"

definition hex_byte :: "byte \<Rightarrow> string" where
  "hex_byte b = [hex_digit (unat b div 16), hex_digit (unat b mod 16)]"

definition md5_hexdigest :: "byte list \<Rightarrow> string" where
  "md5_hexdigest msg = concat (map hex_byte (md5_digest msg))"

definition is_hex :: "char \<Rightarrow> bool" where
  "is_hex c = (c \<in> set ''0123456789abcdef'')"

section \<open>The product extractor: \<open>scrape_product\<close>\<close>

text \<open>The product dictionary; its key \<open>id\<close> is the field \<open>item_id\<close>.\<close>

record product =
  item_id :: string
  title :: string
  description :: string
  link :: string
  image_link :: string
  price :: string
  availability :: string
  condition :: string
  brand :: string
  mpn :: string
  gtin :: string
  category :: string
  google_category :: string

definition avail_map :: dict where
  "avail_map = map_of
     [(''https://schema.org/InStock'', ''in_stock''),
      (''https://schema.org/OutOfStock'', ''out_of_stock''),
      (''https://schema.org/PreOrder'', ''preorder''),
      (''http://schema.org/InStock'', ''in_stock''),
      (''http://schema.org/OutOfStock'', ''out_of_stock'')]"

definition cond_map :: dict where
  "cond_map = map_of
     [(''https://schema.org/NewCondition'', ''new''),
      (''http://schema.org/NewCondition'', ''new''),
      (''https://schema.org/UsedCondition'', ''used''),
      (''https://schema.org/RefurbishedCondition'', ''refurbished'')]"

text \<open>The two lookups of the source, \<open>avail_map.get(availability, "in_stock")\<close> on
  \<open>offers.get("availability", "")\<close> and its sibling for the condition.\<close>

definition g_availability :: "dict \<Rightarrow> string" where
  "g_availability offers = dict_get avail_map (dict_get offers ''availability'' '''') ''in_stock''"

definition g_condition :: "dict \<Rightarrow> string" where
  "g_condition offers = dict_get cond_map (dict_get offers ''itemCondition'' '''') ''new''"

text \<open>The identifier: the SKU, the last segment of the URL when the SKU is empty, and
  the shortening of an identifier of more than 50 characters.\<close>

definition shorten_id :: "string \<Rightarrow> string" where
  "shorten_id i =
     (if length i > 50
      then take 41 i @ ''-'' @ take 8 (md5_hexdigest (py_encode i))
      else i)"

definition product_id :: "string \<Rightarrow> string \<Rightarrow> string" where
  "product_id sku url =
     shorten_id (if sku = '''' then last_segment (rstrip_slash url) else sku)"

text \<open>
  The dictionary \<open>product\<close> as it stands when the source reaches its last check (the
  lookups in \<open>offers\<close>, the two tables, the dictionary literal, the identifier and the
  category), from the metadata tags, the structured document and the URL. The local
  \<open>price\<close> of the source is \<open>offer_price\<close> here.
\<close>

definition build_product :: "dict \<Rightarrow> jsonld \<Rightarrow> string \<Rightarrow> product" where
  "build_product og jsonld url =
     (let m = ld_members jsonld;
          offers = (case ld_offers jsonld of None \<Rightarrow> Map.empty | Some d \<Rightarrow> d);
          offer_price = dict_get offers ''price'' '''';
          currency = dict_get offers ''priceCurrency'' ''TRY'';
          desc = dict_get m ''description'' ''''
      in \<lparr> item_id = product_id (dict_get m ''sku'' '''') url,
            title = dict_get m ''name'' (dict_get og ''title'' ''''),
            description =
              take 5000 (py_strip
                (if desc \<noteq> '''' then desc else dict_get og ''meta_description'' '''')),
            link = url,
            image_link = dict_get m ''image'' (dict_get og ''image'' ''''),
            price = (if offer_price \<noteq> '''' then offer_price @ '' '' @ currency else ''''),
            availability = g_availability offers,
            condition = g_condition offers,
            brand =
              dict_get (case ld_brand jsonld of None \<Rightarrow> Map.empty | Some d \<Rightarrow> d) ''name'' '''',
            mpn = dict_get m ''mpn'' '''',
            gtin = dict_get m ''gtin13'' (dict_get m ''gtin'' ''''),
            category = dict_get m ''category'' '''',
            google_category = map_google_category url \<rparr>)"

text \<open>
  \<open>scrape_product\<close>, with the fetcher's network for this URL as an argument. \<open>None\<close> is the
  source's \<open>return None\<close>. With string members nothing in the body raises.
\<close>

definition scrape_product :: "(nat \<Rightarrow> page option) \<Rightarrow> string \<Rightarrow> product option" where
  "scrape_product net url =
     (case fetch_url net of
        None \<Rightarrow> None
      | Some pg \<Rightarrow>
          if html pg = '''' then None
          else
            (let jsonld = extract_product_jsonld pg;
                 og = extract_og_tags pg
             in case jsonld of
                  None \<Rightarrow> None
                | Some doc \<Rightarrow>
                    (let product = build_product og doc url
                     in if title product = '''' \<or> price product = '''' then None
                        else Some product)))"

section \<open>The feed serializer: \<open>escape_xml\<close> and \<open>generate_feed\<close>\<close>

definition escape_xml :: "string \<Rightarrow> string" where
  "escape_xml text =
     (if text = '''' then ''''
      else replace_char (CHR 0x27) ''&apos;''
             (replace_char (CHR 0x22) ''&quot;''
               (replace_char CHR ''>'' ''&gt;''
                 (replace_char CHR ''<'' ''&lt;''
                   (replace_char CHR ''&'' ''&amp;'' text)))))"

text \<open>
  The channel title and description of the source are fixed texts with letters beyond
  U+00FF, which \<^typ>\<open>char\<close> does not hold; the model takes the two texts as an argument.
\<close>

record channel =
  channel_title :: string
  channel_description :: string

definition feed_head :: "channel \<Rightarrow> string list" where
  \<open>feed_head chan =
     [''<?xml version="1.0" encoding="UTF-8"?>'',
      ''<rss version="2.0" xmlns:g="http://base.google.com/ns/1.0">'',
      ''  <channel>'',
      ''    <title>'' @ channel_title chan @ ''</title>'',
      ''    <link>https://www.turkiyesolarmarket.com.tr</link>'',
      ''    <description>'' @ channel_description chan @ ''</description>'']\<close>

text \<open>The lines one pass of the loop over the products appends.\<close>

definition item_lines :: "product \<Rightarrow> string list" where
  "item_lines p =
     [''    <item>'',
      ''      <g:id>'' @ escape_xml (item_id p) @ ''</g:id>'',
      ''      <g:title>'' @ escape_xml (take 150 (title p)) @ ''</g:title>'',
      ''      <g:description>'' @ escape_xml (take 5000 (description p)) @ ''</g:description>'',
      ''      <g:link>'' @ escape_xml (link p) @ ''</g:link>'',
      ''      <g:image_link>'' @ escape_xml (image_link p) @ ''</g:image_link>'',
      ''      <g:price>'' @ escape_xml (price p) @ ''</g:price>'',
      ''      <g:availability>'' @ availability p @ ''</g:availability>'',
      ''      <g:condition>'' @ condition p @ ''</g:condition>'']
     @ (if brand p \<noteq> '''' then [''      <g:brand>'' @ escape_xml (brand p) @ ''</g:brand>''] else [])
     @ (if mpn p \<noteq> '''' then [''      <g:mpn>'' @ escape_xml (mpn p) @ ''</g:mpn>''] else [])
     @ (if gtin p \<noteq> '''' then [''      <g:gtin>'' @ escape_xml (gtin p) @ ''</g:gtin>'']
        else [''      <g:identifier_exists>false</g:identifier_exists>''])
     @ [''      <g:google_product_category>'' @ escape_xml (google_category p)
          @ ''</g:google_product_category>'',
        ''    </item>'']"

definition feed_lines :: "channel \<Rightarrow> product list \<Rightarrow> string list" where
  "feed_lines chan products =
     feed_head chan @ concat (map item_lines products) @ [''  </channel>'', ''</rss>'']"

definition generate_feed :: "channel \<Rightarrow> product list \<Rightarrow> string" where
  "generate_feed chan products = py_join [CHR 0x0A] (feed_lines chan products)"

section \<open>The orchestrator: \<open>main\<close>\<close>

text \<open>
  What a run leaves behind: the exit code of the process, the content of
  \<open>merchant-feed.xml\<close> (\<open>None\<close> when the run never opens the file), the error counter, and
  the \<open>ERROR\<close> lines among what it prints (progress and summary lines are left out).
\<close>

record run =
  exit_code :: nat
  feed_file :: "string option"
  errors :: nat
  error_lines :: "string list"

text \<open>
  The worker pool: unit \<open>i\<close> scrapes the \<open>i\<close>-th URL against its own network \<open>web i\<close>, and
  \<open>order\<close> lists the units in the order in which they complete (\<open>as_completed\<close>); each
  unit completes once, so \<open>order\<close> is an arrangement of the indices of the URLs, and an
  entry that is no index is passed over.
\<close>

definition completed :: "(nat \<Rightarrow> nat \<Rightarrow> page option) \<Rightarrow> nat list \<Rightarrow> string list \<Rightarrow> product option list" where
  "completed web order urls =
     map (\<lambda>i. scrape_product (web i) (urls ! i)) (filter (\<lambda>i. i < length urls) order)"

text \<open>The products in completion order, then sorted by title: \<open>list.sort\<close> is stable and
  compares the keys as strings, code point by code point.\<close>

definition collected :: "product option list \<Rightarrow> product list" where
  "collected results = List.map_filter (\<lambda>r. r) results"

definition sorted_products :: "product option list \<Rightarrow> product list" where
  "sorted_products results = sort_key title (collected results)"

definition main :: "channel \<Rightarrow> (nat \<Rightarrow> string option) \<Rightarrow> (nat \<Rightarrow> nat \<Rightarrow> page option) \<Rightarrow> nat list \<Rightarrow> run" where
  "main chan sitemap_net web order =
     (case get_product_urls sitemap_net of
        None \<Rightarrow>
          \<lparr> exit_code = 1, feed_file = None, errors = 0,
            error_lines = [''ERROR: Could not fetch sitemap''] \<rparr>
      | Some urls \<Rightarrow>
          (let results = completed web order urls;
               products = sorted_products results;
               xml_content = generate_feed chan products;
               written = Some xml_content;
               failed = length (filter (\<lambda>r. r = None) results)
           in if length products < 10
              then \<lparr> exit_code = 1, feed_file = written, errors = failed,
                     error_lines = [''ERROR: Too few products scraped, feed not saved''] \<rparr>
              else \<lparr> exit_code = 0, feed_file = written, errors = failed, error_lines = [] \<rparr>))"

section \<open>Structured data of any JSON type\<close>























section \<open>What the specification says of the output\<close>

text \<open>
  The definitions of this section are not taken from the source. They state, in the
  words of the specification, what the source's functions are compared with.
\<close>

text \<open>The three availability states and the three conditions of the data model.\<close>

definition availability_values :: "string list" where
  "availability_values = [''in_stock'', ''out_of_stock'', ''preorder'']"

definition condition_values :: "string list" where
  "condition_values = [''new'', ''used'', ''refurbished'']"

text \<open>Escaping as the specification describes it: each of the five reserved characters
  becomes its entity, every other character stays as it is.\<close>

definition esc_char :: "char \<Rightarrow> string" where
  "esc_char c =
     (if c = CHR ''&'' then ''&amp;''
      else if c = CHR ''<'' then ''&lt;''
      else if c = CHR ''>'' then ''&gt;''
      else if c = CHR 0x22 then ''&quot;''
      else if c = CHR 0x27 then ''&apos;''
      else [c])"


text \<open>
  The characters XML 1.0 allows in a document, among the code points below 256: tab,
  line feed, carriage return and everything from U+0020 on. A parser reads a carriage
  return as a line feed, so the characters it gives back unchanged are those but the
  carriage return.
\<close>

definition xml_char :: "char \<Rightarrow> bool" where
  "xml_char c = (let n = (of_char c :: nat) in n = 9 \<or> n = 10 \<or> n = 13 \<or> 32 \<le> n)"


text \<open>
  What an XML 1.0 parser makes of the character data of an element: \<open>None\<close> when the
  text is not well-formed (a character XML does not allow, a bare \<open><\<close>, the sequence
  \<open>]]>\<close>, or an \<open>&\<close> that does not begin a reference), the text otherwise, with each of the
  five predefined entities replaced and each line end (a carriage return with or without
  a line feed after it) read as one line feed. References other than the five entities
  are not read: the serializer writes none, and the result for them is \<open>None\<close>.
\<close>

fun xml_unescape :: "string \<Rightarrow> string option" where
  "xml_unescape [] = Some []"
| "xml_unescape (c # s) =
     (if xml_char c then
        (if c = CHR ''<'' then None
         else if prefix '']]>'' (c # s) then None
         else if c = CHR 0x0D then
           (if prefix [CHR 0x0A] s then xml_unescape s
            else map_option ((#) (CHR 0x0A)) (xml_unescape s))
         else if c = CHR ''&'' then
           (if prefix ''amp;'' s then map_option ((#) CHR ''&'') (xml_unescape (drop 4 s))
            else if prefix ''lt;'' s then map_option ((#) CHR ''<'') (xml_unescape (drop 3 s))
            else if prefix ''gt;'' s then map_option ((#) CHR ''>'') (xml_unescape (drop 3 s))
            else if prefix ''quot;'' s then map_option ((#) (CHR 0x22)) (xml_unescape (drop 5 s))
            else if prefix ''apos;'' s then map_option ((#) (CHR 0x27)) (xml_unescape (drop 5 s))
            else None)
         else map_option ((#) c) (xml_unescape s))
      else None)"







section \<open>A small run\<close>

text \<open>
  A sitemap with four product URLs, used to run the model: the first page is fetched at
  the second attempt and holds a complete product whose offer is on pre-order in the
  insecure scheme form; the second holds a product without a price; the third is never
  fetched; the fourth holds a complete product without a SKU, with a GTIN and with
  reserved characters in its name. The units complete in the order 0, 3, 1, 2.
\<close>

definition demo_channel :: channel where
  "demo_channel = \<lparr> channel_title = ''Solar Market'', channel_description = ''Solar'' \<rparr>"

definition demo_urls :: "string list" where
  "demo_urls =
     [''https://www.turkiyesolarmarket.com.tr/urunler/fronius-symo-10'',
      ''https://www.turkiyesolarmarket.com.tr/urunler/solar-kablo-6mm'',
      ''https://www.turkiyesolarmarket.com.tr/urunler/huawei-luna-batarya'',
      ''https://www.turkiyesolarmarket.com.tr/urunler/canadian-solar-panel-550w/'']"

definition demo_sitemap :: string where
  "demo_sitemap =
     ''<urlset>''
     @ ''<url><loc>https://www.turkiyesolarmarket.com.tr/urunler/fronius-symo-10</loc></url>''
     @ ''<url><loc>https://www.turkiyesolarmarket.com.tr/hakkimizda</loc></url>''
     @ ''<url><loc>https://www.turkiyesolarmarket.com.tr/urunler/solar-kablo-6mm</loc></url>''
     @ ''<url><loc>https://www.turkiyesolarmarket.com.tr/urunler/huawei-luna-batarya</loc></url>''
     @ ''<url><loc>https://www.turkiyesolarmarket.com.tr/urunler/canadian-solar-panel-550w/</loc></url>''
     @ ''</urlset>''"

definition demo_sitemap_net :: "nat \<Rightarrow> string option" where
  "demo_sitemap_net attempt = Some demo_sitemap"

definition demo_fronius_doc :: jsonld where
  "demo_fronius_doc =
     \<lparr> ld_members = map_of
         [(''@type'', ''Product''), (''name'', ''Fronius Symo 10.0-3-M''), (''sku'', ''FRO-SYMO-10'')],
       ld_offers = Some (map_of
         [(''price'', ''12500.00''), (''availability'', ''http://schema.org/PreOrder'')]),
       ld_brand = Some (map_of [(''name'', ''Fronius'')]) \<rparr>"

definition demo_fronius_page :: page where
  "demo_fronius_page =
     \<lparr> html = ''<html>fronius</html>'',
       ld_blocks = [None, Some demo_fronius_doc],
       og_matches = [(''title'', ''Fronius Symo''),
                     (''image'', ''https://www.turkiyesolarmarket.com.tr/img/symo.jpg'')],
       meta_description = Some '' Three-phase inverter '' \<rparr>"

definition demo_cable_doc :: jsonld where
  "demo_cable_doc =
     \<lparr> ld_members = map_of [(''@type'', ''Product''), (''name'', ''Solar Kablo 6mm'')],
       ld_offers = Some (map_of [(''priceCurrency'', ''TRY'')]),
       ld_brand = None \<rparr>"

definition demo_cable_page :: page where
  "demo_cable_page =
     \<lparr> html = ''<html>kablo</html>'',
       ld_blocks = [Some demo_cable_doc],
       og_matches = [],
       meta_description = None \<rparr>"

definition demo_panel_doc :: jsonld where
  "demo_panel_doc =
     \<lparr> ld_members = map_of
         [(''@type'', ''Product''), (''name'', ''Canadian Solar 550W <Mono> & PERC''),
          (''description'', ''Mono PERC panel''), (''mpn'', ''CS6W-550''),
          (''gtin13'', ''8680000000017''), (''category'', ''Paneller'')],
       ld_offers = Some (map_of
         [(''price'', ''4200''), (''priceCurrency'', ''EUR''),
          (''availability'', ''https://schema.org/OutOfStock''),
          (''itemCondition'', ''https://schema.org/UsedCondition'')]),
       ld_brand = None \<rparr>"

definition demo_panel_page :: page where
  "demo_panel_page =
     \<lparr> html = ''<html>panel</html>'',
       ld_blocks = [Some demo_panel_doc],
       og_matches = [],
       meta_description = None \<rparr>"

definition demo_web :: "nat \<Rightarrow> nat \<Rightarrow> page option" where
  "demo_web i attempt =
     (if i = 0 then (if attempt = 0 then None else Some demo_fronius_page)
      else if i = 1 then Some demo_cable_page
      else if i = 3 then Some demo_panel_page
      else None)"

definition demo_order :: "nat list" where
  "demo_order = [0, 3, 1, 2]"

text \<open>The two records the run collects.\<close>

definition demo_fronius :: product where
  "demo_fronius =
     \<lparr> item_id = ''FRO-SYMO-10'',
       title = ''Fronius Symo 10.0-3-M'',
       description = ''Three-phase inverter'',
       link = ''https://www.turkiyesolarmarket.com.tr/urunler/fronius-symo-10'',
       image_link = ''https://www.turkiyesolarmarket.com.tr/img/symo.jpg'',
       price = ''12500.00 TRY'',
       availability = ''in_stock'',
       condition = ''new'',
       brand = ''Fronius'',
       mpn = '''',
       gtin = '''',
       category = '''',
       google_category = ''Hardware > Power & Electrical Supplies > Power Inverters'' \<rparr>"

definition demo_panel :: product where
  "demo_panel =
     \<lparr> item_id = ''canadian-solar-panel-550w'',
       title = ''Canadian Solar 550W <Mono> & PERC'',
       description = ''Mono PERC panel'',
       link = ''https://www.turkiyesolarmarket.com.tr/urunler/canadian-solar-panel-550w/'',
       image_link = '''',
       price = ''4200 EUR'',
       availability = ''out_of_stock'',
       condition = ''used'',
       brand = '''',
       mpn = ''CS6W-550'',
       gtin = ''8680000000017'',
       category = ''Paneller'',
       google_category = ''Hardware > Power & Electrical Supplies > Solar Panels'' \<rparr>"




section \<open>Facts about the string operations\<close>

lemma py_in_iff: "py_in sub s \<longleftrightarrow> (\<exists>pre post. s = pre @ sub @ post)"
proof (induction s)
  case Nil
  show ?case by auto
next
  case (Cons c s)
  show ?case
  proof
    assume "py_in sub (c # s)"
    then consider "prefix sub (c # s)" | "py_in sub s" by auto
    then show "\<exists>pre post. c # s = pre @ sub @ post"
    proof cases
      case 1
      then obtain post where "c # s = sub @ post" by (auto simp: prefix_def)
      then have "c # s = [] @ sub @ post" by simp
      then show ?thesis by blast
    next
      case 2
      with Cons.IH obtain pre post where "s = pre @ sub @ post" by blast
      then have "c # s = (c # pre) @ sub @ post" by simp
      then show ?thesis by blast
    qed
  next
    assume "\<exists>pre post. c # s = pre @ sub @ post"
    then obtain pre post where eq: "c # s = pre @ sub @ post" by blast
    show "py_in sub (c # s)"
    proof (cases pre)
      case Nil
      with eq have "prefix sub (c # s)" by (simp add: prefix_def)
      then show ?thesis by simp
    next
      case (Cons d pre')
      with eq have "s = pre' @ sub @ post" by simp
      with Cons.IH have "py_in sub s" by blast
      then show ?thesis by simp
    qed
  qed
qed

lemma py_in_appendI: "py_in sub (pre @ sub @ post)"
  by (auto simp: py_in_iff)

lemma py_lower_append: "py_lower (a @ b) = py_lower a @ py_lower b"
  by (simp add: py_lower_def)

section \<open>Facts about the classification\<close>

lemma map_google_category_first_match:
  "map_google_category url = first_match category_rules cat_power_inverters (py_lower url)"
  by (simp add: map_google_category_def category_rules_def group_matches_def Let_def)

lemma first_match_earliest:
  "group_matches pats text \<Longrightarrow> list_all (\<lambda>(qs, d). \<not> group_matches qs text) before
     \<Longrightarrow> first_match (before @ (pats, cat) # after) dflt text = cat"
  by (induction before) auto

lemma first_match_none:
  "list_all (\<lambda>(qs, d). \<not> group_matches qs text) rules \<Longrightarrow> first_match rules dflt text = dflt"
  by (induction rules) auto

section \<open>Facts about escaping\<close>

lemma replace_char_Nil: "replace_char old new [] = []"
  by (simp add: replace_char_def)

lemma replace_char_Cons:
  "replace_char old new (c # s) = (if c = old then new else [c]) @ replace_char old new s"
  by (simp add: replace_char_def)

lemma replace_char_append:
  "replace_char old new (a @ b) = replace_char old new a @ replace_char old new b"
  by (simp add: replace_char_def)

lemma escape_xml_Cons: "escape_xml (c # s) = esc_char c @ escape_xml s"
  by (simp add: escape_xml_def esc_char_def replace_char_Cons replace_char_append
      replace_char_Nil)

lemma escape_xml_concat: "escape_xml s = concat (map esc_char s)"
  by (induction s) (simp add: escape_xml_def, simp add: escape_xml_Cons)

lemma esc_char_no_markup:
  "CHR ''<'' \<notin> set (esc_char c)" "CHR ''>'' \<notin> set (esc_char c)"
  "CHR 0x22 \<notin> set (esc_char c)" "CHR 0x27 \<notin> set (esc_char c)"
  by (auto simp: esc_char_def)

lemma lt_notin_escape_xml: "CHR ''<'' \<notin> set (escape_xml s)"
  using esc_char_no_markup(1) by (auto simp: escape_xml_concat)







section \<open>Facts about reading an element back\<close>











section \<open>Facts about the two lookup tables\<close>

lemma g_availability_table:
  "g_availability offers =
     (let a = dict_get offers ''availability'' ''''
      in if a = ''https://schema.org/InStock'' \<or> a = ''http://schema.org/InStock'' then ''in_stock''
         else if a = ''https://schema.org/OutOfStock'' \<or> a = ''http://schema.org/OutOfStock''
         then ''out_of_stock''
         else if a = ''https://schema.org/PreOrder'' then ''preorder''
         else ''in_stock'')"
  by (simp add: g_availability_def avail_map_def dict_get_def Let_def)

lemma g_condition_table:
  "g_condition offers =
     (let a = dict_get offers ''itemCondition'' ''''
      in if a = ''https://schema.org/NewCondition'' \<or> a = ''http://schema.org/NewCondition'' then ''new''
         else if a = ''https://schema.org/UsedCondition'' then ''used''
         else if a = ''https://schema.org/RefurbishedCondition'' then ''refurbished''
         else ''new'')"
  by (simp add: g_condition_def cond_map_def dict_get_def Let_def)

lemma g_availability_values: "g_availability offers \<in> set availability_values"
  by (simp add: g_availability_table availability_values_def Let_def)

lemma g_condition_values: "g_condition offers \<in> set condition_values"
  by (simp add: g_condition_table condition_values_def Let_def)

section \<open>Facts about the discovered URLs\<close>






section \<open>Facts about MD5 and the identifier\<close>

lemma length_md5_digest: "length (md5_digest msg) = 16"
  by (simp add: md5_digest_def le_bytes_def split: prod.splits)

lemma length_md5_hexdigest: "length (md5_hexdigest msg) = 32"
proof -
  have "length (concat (map hex_byte bs)) = 2 * length bs" for bs
    by (induction bs) (simp_all add: hex_byte_def)
  then show ?thesis by (simp add: md5_hexdigest_def length_md5_digest)
qed

lemma is_hex_hex_digit: "is_hex (hex_digit n)"
proof -
  have "n mod 16 < length ''0123456789abcdef''" by simp
  then have "''0123456789abcdef'' ! (n mod 16) \<in> set ''0123456789abcdef''"
    by (rule nth_mem)
  then show ?thesis by (simp only: is_hex_def hex_digit_def)
qed

lemma md5_hexdigest_hex: "list_all is_hex (md5_hexdigest msg)"
proof -
  have "list_all is_hex (concat (map hex_byte bs))" for bs
    by (induction bs) (simp_all add: hex_byte_def is_hex_hex_digit)
  then show ?thesis by (simp add: md5_hexdigest_def)
qed

text \<open>The model of MD5 on a test vector of RFC 1321.\<close>

lemma md5_abc: "md5_hexdigest (py_encode ''abc'') = ''900150983cd24fb0d6963f7d28e17f72''"
  by code_simp

lemma shorten_id_short: "length i \<le> 50 \<Longrightarrow> shorten_id i = i"
  by (simp add: shorten_id_def)

lemma length_shorten_id_long: "50 < length i \<Longrightarrow> length (shorten_id i) = 50"
  by (simp add: shorten_id_def length_md5_hexdigest)

lemma length_shorten_id: "length (shorten_id i) \<le> 50"
  by (cases "50 < length i") (simp_all add: length_shorten_id_long shorten_id_short)



lemma length_product_id: "length (product_id sku url) \<le> 50"
  by (simp add: product_id_def length_shorten_id)

section \<open>Facts about the extractor and the collected records\<close>

lemma map_google_category_nonempty: "map_google_category url \<noteq> ''''"
  by (simp add: map_google_category_def Let_def cat_solar_panels_def cat_batteries_def
      cat_charging_def cat_cables_def cat_solar_kits_def cat_power_inverters_def)

lemma scrape_product_SomeD:
  assumes "scrape_product net url = Some p"
  obtains pg doc where "fetch_url net = Some pg" "html pg \<noteq> ''''"
    "extract_product_jsonld pg = Some doc"
    "p = build_product (extract_og_tags pg) doc url"
    "title p \<noteq> ''''" "price p \<noteq> ''''"
  using assms
  by (auto simp: scrape_product_def Let_def split: option.splits if_splits)

lemma build_product_fields:
  "availability (build_product og doc url) =
     g_availability (case ld_offers doc of None \<Rightarrow> Map.empty | Some d \<Rightarrow> d)"
  "condition (build_product og doc url) =
     g_condition (case ld_offers doc of None \<Rightarrow> Map.empty | Some d \<Rightarrow> d)"
  "link (build_product og doc url) = url"
  "google_category (build_product og doc url) = map_google_category url"
  "item_id (build_product og doc url) = product_id (dict_get (ld_members doc) ''sku'' '''') url"
  by (simp_all add: build_product_def Let_def)

lemma scrape_product_record:
  assumes "scrape_product net url = Some p"
  shows "title p \<noteq> ''''" "price p \<noteq> ''''" "link p = url"
    "google_category p \<noteq> ''''" "length (item_id p) \<le> 50"
    "\<exists>sku. item_id p = product_id sku url"
    "availability p \<in> set availability_values" "condition p \<in> set condition_values"
  using assms
  by (auto elim!: scrape_product_SomeD
      simp: build_product_fields map_google_category_nonempty length_product_id
        g_availability_values g_condition_values)

text \<open>The order on titles: characters by their code points, strings lexicographically,
  a proper prefix before its extensions.\<close>

lemma string_order_code_points:
  "(c :: char) \<le> d \<longleftrightarrow> (of_char c :: nat) \<le> of_char d"
  "([] :: string) \<le> t"
  "\<not> (c # s \<le> ([] :: string))"
  "(c # s \<le> d # t) \<longleftrightarrow> c < d \<or> (c = d \<and> s \<le> t)"
  by (auto simp: less_eq_char_def)






section \<open>Facts about structured data of any JSON type\<close>




















section \<open>Facts about the lines of an item\<close>

lemma py_in_skip: "c \<notin> set t \<Longrightarrow> py_in (c # w) (t @ s) = py_in (c # w) s"
  by (induction t) auto

lemma escaped_line_no_gtin:
  "\<not> py_in ''<g:gtin>'' (''      <g:id>'' @ escape_xml a @ ''</g:id>'')"
  "\<not> py_in ''<g:gtin>'' (''      <g:title>'' @ escape_xml a @ ''</g:title>'')"
  "\<not> py_in ''<g:gtin>'' (''      <g:description>'' @ escape_xml a @ ''</g:description>'')"
  "\<not> py_in ''<g:gtin>'' (''      <g:link>'' @ escape_xml a @ ''</g:link>'')"
  "\<not> py_in ''<g:gtin>'' (''      <g:image_link>'' @ escape_xml a @ ''</g:image_link>'')"
  "\<not> py_in ''<g:gtin>'' (''      <g:price>'' @ escape_xml a @ ''</g:price>'')"
  "\<not> py_in ''<g:gtin>'' (''      <g:brand>'' @ escape_xml a @ ''</g:brand>'')"
  "\<not> py_in ''<g:gtin>'' (''      <g:mpn>'' @ escape_xml a @ ''</g:mpn>'')"
  "\<not> py_in ''<g:gtin>'' (''      <g:google_product_category>'' @ escape_xml a
        @ ''</g:google_product_category>'')"
  "\<not> py_in ''<g:gtin>'' ''    <item>''"
  "\<not> py_in ''<g:gtin>'' ''    </item>''"
  "\<not> py_in ''<g:gtin>'' ''      <g:identifier_exists>false</g:identifier_exists>''"
  by (simp_all add: py_in_skip lt_notin_escape_xml)

lemma escaped_line_no_flag:
  "\<not> py_in ''<g:identifier_exists>'' (''      <g:id>'' @ escape_xml a @ ''</g:id>'')"
  "\<not> py_in ''<g:identifier_exists>'' (''      <g:title>'' @ escape_xml a @ ''</g:title>'')"
  "\<not> py_in ''<g:identifier_exists>'' (''      <g:description>'' @ escape_xml a @ ''</g:description>'')"
  "\<not> py_in ''<g:identifier_exists>'' (''      <g:link>'' @ escape_xml a @ ''</g:link>'')"
  "\<not> py_in ''<g:identifier_exists>'' (''      <g:image_link>'' @ escape_xml a @ ''</g:image_link>'')"
  "\<not> py_in ''<g:identifier_exists>'' (''      <g:price>'' @ escape_xml a @ ''</g:price>'')"
  "\<not> py_in ''<g:identifier_exists>'' (''      <g:brand>'' @ escape_xml a @ ''</g:brand>'')"
  "\<not> py_in ''<g:identifier_exists>'' (''      <g:mpn>'' @ escape_xml a @ ''</g:mpn>'')"
  "\<not> py_in ''<g:identifier_exists>'' (''      <g:gtin>'' @ escape_xml a @ ''</g:gtin>'')"
  "\<not> py_in ''<g:identifier_exists>'' (''      <g:google_product_category>'' @ escape_xml a
        @ ''</g:google_product_category>'')"
  "\<not> py_in ''<g:identifier_exists>'' ''    <item>''"
  "\<not> py_in ''<g:identifier_exists>'' ''    </item>''"
  by (simp_all add: py_in_skip lt_notin_escape_xml)

lemma plain_line_no_gtin:
  "v \<in> set availability_values
     \<Longrightarrow> \<not> py_in ''<g:gtin>'' (''      <g:availability>'' @ v @ ''</g:availability>'')"
  "v \<in> set condition_values
     \<Longrightarrow> \<not> py_in ''<g:gtin>'' (''      <g:condition>'' @ v @ ''</g:condition>'')"
  by (auto simp: availability_values_def condition_values_def)

lemma plain_line_no_flag:
  "v \<in> set availability_values
     \<Longrightarrow> \<not> py_in ''<g:identifier_exists>'' (''      <g:availability>'' @ v @ ''</g:availability>'')"
  "v \<in> set condition_values
     \<Longrightarrow> \<not> py_in ''<g:identifier_exists>'' (''      <g:condition>'' @ v @ ''</g:condition>'')"
  by (auto simp: availability_values_def condition_values_def)

lemma tag_line_has_tag:
  "py_in ''<g:gtin>'' (''      <g:gtin>'' @ a @ ''</g:gtin>'')"
  "py_in ''<g:identifier_exists>'' ''      <g:identifier_exists>false</g:identifier_exists>''"
  by simp_all

section \<open>The small run, evaluated\<close>

lemma demo_get_product_urls: "get_product_urls demo_sitemap_net = Some demo_urls"
  by code_simp

lemma length_demo_urls: "length demo_urls = 4"
  by (simp add: demo_urls_def)

lemma demo_scrape_fronius: "scrape_product (demo_web 0) (demo_urls ! 0) = Some demo_fronius"
  by code_simp

lemma demo_scrape_cable: "scrape_product (demo_web 1) (demo_urls ! 1) = None"
  by code_simp

lemma demo_scrape_battery: "scrape_product (demo_web 2) (demo_urls ! 2) = None"
  by code_simp

lemma demo_scrape_panel: "scrape_product (demo_web 3) (demo_urls ! 3) = Some demo_panel"
  by code_simp

lemma demo_completed:
  "completed demo_web demo_order demo_urls = [Some demo_fronius, Some demo_panel, None, None]"
  by (simp add: completed_def demo_order_def length_demo_urls demo_scrape_fronius
      demo_scrape_cable demo_scrape_battery demo_scrape_panel del: One_nat_def)

lemma demo_title_order: "title demo_panel < title demo_fronius"
  by (simp add: demo_panel_def demo_fronius_def)

lemma demo_sorted_products:
  "sorted_products [Some demo_fronius, Some demo_panel, None, None] = [demo_panel, demo_fronius]"
  using demo_title_order
  by (simp add: sorted_products_def collected_def map_filter_simps not_le [symmetric])

lemma demo_values:
  "availability demo_panel \<in> set availability_values"
  "condition demo_panel \<in> set condition_values"
  "availability demo_fronius \<in> set availability_values"
  "condition demo_fronius \<in> set condition_values"
  by (simp_all add: demo_panel_def demo_fronius_def availability_values_def condition_values_def)

section \<open>The claims\<close>

text \<open>
  C1. A run that collects fewer than ten products should exit with a non-zero code and
  leave no feed file. In the source the file is written before the count is looked at:
  the small run collects two products, exits with code 1 and prints that the feed was
  not saved, and the file holds the feed of the two products.
\<close>

theorem feed_written_below_threshold:
  "exit_code (main demo_channel demo_sitemap_net demo_web demo_order) = 1
   \<and> feed_file (main demo_channel demo_sitemap_net demo_web demo_order)
       = Some (generate_feed demo_channel [demo_panel, demo_fronius])
   \<and> error_lines (main demo_channel demo_sitemap_net demo_web demo_order)
       = [''ERROR: Too few products scraped, feed not saved'']
   \<and> errors (main demo_channel demo_sitemap_net demo_web demo_order) = 2"
  by (simp add: main_def demo_get_product_urls demo_sorted_products Let_def demo_completed)

text \<open>
  C2. A known availability URI should map to its state in both scheme forms. The table
  of the source has no entry for \<open>http://schema.org/PreOrder\<close>: the first page of the small
  run carries it, and its record is \<open>in_stock\<close>, while the secure form of the same URI
  gives \<open>preorder\<close> and the insecure forms of the other two URIs give their states.
\<close>

theorem preorder_insecure_form_in_stock:
  "map_option (\<lambda>offers. offers ''availability'') (ld_offers demo_fronius_doc)
       = Some (Some ''http://schema.org/PreOrder'')
   \<and> map_option availability (scrape_product (demo_web 0) (demo_urls ! 0)) = Some ''in_stock''
   \<and> g_availability [''availability'' \<mapsto> ''http://schema.org/PreOrder''] = ''in_stock''
   \<and> g_availability [''availability'' \<mapsto> ''https://schema.org/PreOrder''] = ''preorder''
   \<and> g_availability [''availability'' \<mapsto> ''http://schema.org/InStock''] = ''in_stock''
   \<and> g_availability [''availability'' \<mapsto> ''http://schema.org/OutOfStock''] = ''out_of_stock''"
  by (simp add: demo_scrape_fronius demo_fronius_def demo_fronius_doc_def
      g_availability_table dict_get_def)



text \<open>
  C4. An identifier of more than 50 characters becomes one of exactly 50: its first 41
  characters, a hyphen, and the first eight characters of the hexadecimal MD5 digest of
  its UTF-8 encoding, each of them a hexadecimal digit. The result depends on the
  identifier alone, so equal identifiers give equal results.
\<close>

theorem shorten_id_long:
  "50 < length i \<Longrightarrow>
     length (shorten_id i) = 50
     \<and> take 41 (shorten_id i) = take 41 i
     \<and> shorten_id i ! 41 = CHR ''-''
     \<and> drop 42 (shorten_id i) = take 8 (md5_hexdigest (py_encode i))
     \<and> list_all is_hex (drop 42 (shorten_id i))"
proof -
  assume long: "50 < length i"
  let ?h = "take 8 (md5_hexdigest (py_encode i))"
  have eq: "shorten_id i = take 41 i @ ''-'' @ ?h"
    using long by (simp add: shorten_id_def)
  have l41: "length (take 41 i) = 41" using long by simp
  have hex: "list_all is_hex ?h"
    using md5_hexdigest_hex [of "py_encode i"] by (simp add: list_all_iff) (meson in_set_takeD)
  have d: "drop 42 (shorten_id i) = ?h"
    unfolding eq using l41 by simp
  have n: "shorten_id i ! 41 = CHR ''-''"
    unfolding eq using l41 by (simp add: nth_append)
  have t: "take 41 (shorten_id i) = take 41 i"
    unfolding eq using l41 by simp
  from length_shorten_id_long [OF long] t n d hex show ?thesis by simp
qed

theorem shorten_id_long_witness:
  "50 < length ''fronius-symo-advanced-10-0-3-m-uc-fazli-sebeke-inverter''
   \<and> shorten_id ''fronius-symo-advanced-10-0-3-m-uc-fazli-sebeke-inverter''
       = ''fronius-symo-advanced-10-0-3-m-uc-fazli-s-6370e942''
   \<and> length (shorten_id ''fronius-symo-advanced-10-0-3-m-uc-fazli-sebeke-inverter'') = 50"
proof -
  have long: "50 < length ''fronius-symo-advanced-10-0-3-m-uc-fazli-sebeke-inverter''"
    by simp
  have v: "shorten_id ''fronius-symo-advanced-10-0-3-m-uc-fazli-sebeke-inverter''
       = ''fronius-symo-advanced-10-0-3-m-uc-fazli-s-6370e942''"
    by code_simp
  from shorten_id_long [OF long] long v show ?thesis by blast
qed

text \<open>
  C5. Classification is a first-match-wins scan of the ordered pattern groups over the
  lowercased URL (the source lowercases the whole URL string, of which the path is a
  part, and names the result \<open>path\<close>):
  \<^item> a URL in which some spelling of \<open>solar-panel\<close>, in any mix of upper and lower case,
    occurs anywhere is classified as Solar Panels, whatever else it contains;
  \<^item> when the groups before a group match nothing and the group itself matches, the URL
    gets that group's category, whatever the later groups do;
  \<^item> when no group matches, the URL gets the Power Inverters category.
\<close>

theorem classification_first_match_wins:
  "(py_lower m = ''solar-panel'' \<longrightarrow> map_google_category (pre @ m @ post) = cat_solar_panels)
   \<and> (category_rules = before @ (pats, cat) # after
        \<and> list_all (\<lambda>(qs, d). \<not> group_matches qs (py_lower url)) before
        \<and> group_matches pats (py_lower url)
      \<longrightarrow> map_google_category url = cat)
   \<and> (list_all (\<lambda>(qs, d). \<not> group_matches qs (py_lower url)) category_rules
      \<longrightarrow> map_google_category url = cat_power_inverters)"
proof (intro conjI impI)
  assume m: "py_lower m = ''solar-panel''"
  have "py_in ''solar-panel'' (py_lower (pre @ m @ post))"
    using py_in_appendI [of "''solar-panel''" "py_lower pre" "py_lower post"]
    by (simp only: py_lower_append m)
  then show "map_google_category (pre @ m @ post) = cat_solar_panels"
    by (simp add: map_google_category_def Let_def)
next
  assume h: "category_rules = before @ (pats, cat) # after
        \<and> list_all (\<lambda>(qs, d). \<not> group_matches qs (py_lower url)) before
        \<and> group_matches pats (py_lower url)"
  then have rules: "category_rules = before @ (pats, cat) # after"
    and quiet: "list_all (\<lambda>(qs, d). \<not> group_matches qs (py_lower url)) before"
    and hit: "group_matches pats (py_lower url)"
    by blast+
  show "map_google_category url = cat"
    unfolding map_google_category_first_match rules
    by (rule first_match_earliest [OF hit quiet])
next
  assume "list_all (\<lambda>(qs, d). \<not> group_matches qs (py_lower url)) category_rules"
  then show "map_google_category url = cat_power_inverters"
    by (simp only: map_google_category_first_match first_match_none)
qed

theorem classification_first_match_wins_witness:
  "map_google_category ''https://www.turkiyesolarmarket.com.tr/urunler/Solar-PANEL-kablo'' = cat_solar_panels
   \<and> map_google_category ''https://www.turkiyesolarmarket.com.tr/urunler/solar-kablo-pano'' = cat_cables
   \<and> map_google_category ''https://www.turkiyesolarmarket.com.tr/urunler/fronius-symo'' = cat_power_inverters"
proof -
  have m: "py_lower ''Solar-PANEL'' = ''solar-panel''"
    by code_simp
  have rules: "category_rules =
      take 3 category_rules @ ([''solar-kablo'', ''konnektor'', ''kablo''], cat_cables) # drop 4 category_rules"
    by (simp add: category_rules_def)
  have quiet: "list_all (\<lambda>(qs, d). \<not> group_matches qs
      (py_lower ''https://www.turkiyesolarmarket.com.tr/urunler/solar-kablo-pano'')) (take 3 category_rules)"
    by code_simp
  have hit: "group_matches [''solar-kablo'', ''konnektor'', ''kablo'']
      (py_lower ''https://www.turkiyesolarmarket.com.tr/urunler/solar-kablo-pano'')"
    by code_simp
  have none: "list_all (\<lambda>(qs, d). \<not> group_matches qs
      (py_lower ''https://www.turkiyesolarmarket.com.tr/urunler/fronius-symo'')) category_rules"
    by code_simp
  from classification_first_match_wins
    [of "''Solar-PANEL''" "''https://www.turkiyesolarmarket.com.tr/urunler/''" "''-kablo''"]
  have 1: "map_google_category
      (''https://www.turkiyesolarmarket.com.tr/urunler/'' @ ''Solar-PANEL'' @ ''-kablo'') = cat_solar_panels"
    using m by blast
  from classification_first_match_wins
    [of _ _ _ "take 3 category_rules" "[''solar-kablo'', ''konnektor'', ''kablo'']" cat_cables
        "drop 4 category_rules" "''https://www.turkiyesolarmarket.com.tr/urunler/solar-kablo-pano''"]
  have 2: "map_google_category ''https://www.turkiyesolarmarket.com.tr/urunler/solar-kablo-pano'' = cat_cables"
    using rules quiet hit by blast
  from classification_first_match_wins
    [of _ _ _ _ _ _ _ "''https://www.turkiyesolarmarket.com.tr/urunler/fronius-symo''"]
  have 3: "map_google_category ''https://www.turkiyesolarmarket.com.tr/urunler/fronius-symo'' = cat_power_inverters"
    using none by blast
  from 1 2 3 show ?thesis by simp
qed






text \<open>
  C8. For a record whose availability and condition are among the enumerated values,
  the tag \<open><g:gtin>\<close> occurs in the lines of its item exactly when its \<open>gtin\<close> is not empty,
  and the tag \<open><g:identifier_exists>\<close> exactly when it is empty; in the first case the
  line is the escaped GTIN between its tags, in the second the fixed line with \<open>false\<close>.
\<close>

theorem gtin_or_identifier_exists:
  "availability p \<in> set availability_values \<Longrightarrow> condition p \<in> set condition_values \<Longrightarrow>
     (list_ex (py_in ''<g:gtin>'') (item_lines p) \<longleftrightarrow> gtin p \<noteq> '''')
     \<and> (list_ex (py_in ''<g:identifier_exists>'') (item_lines p) \<longleftrightarrow> gtin p = '''')
     \<and> (if gtin p \<noteq> ''''
         then ''      <g:gtin>'' @ escape_xml (gtin p) @ ''</g:gtin>'' \<in> set (item_lines p)
         else ''      <g:identifier_exists>false</g:identifier_exists>'' \<in> set (item_lines p))"
proof -
  assume a: "availability p \<in> set availability_values"
    and c: "condition p \<in> set condition_values"
  note quiet = escaped_line_no_gtin escaped_line_no_flag
    plain_line_no_gtin(1) [OF a] plain_line_no_gtin(2) [OF c]
    plain_line_no_flag(1) [OF a] plain_line_no_flag(2) [OF c]
  show ?thesis
    by (simp add: item_lines_def quiet tag_line_has_tag del: py_in.simps append.simps)
qed

theorem gtin_or_identifier_exists_witness:
  "gtin demo_panel = ''8680000000017''
   \<and> list_ex (py_in ''<g:gtin>'') (item_lines demo_panel)
   \<and> \<not> list_ex (py_in ''<g:identifier_exists>'') (item_lines demo_panel)
   \<and> ''      <g:gtin>8680000000017</g:gtin>'' \<in> set (item_lines demo_panel)
   \<and> gtin demo_fronius = ''''
   \<and> \<not> list_ex (py_in ''<g:gtin>'') (item_lines demo_fronius)
   \<and> list_ex (py_in ''<g:identifier_exists>'') (item_lines demo_fronius)
   \<and> ''      <g:identifier_exists>false</g:identifier_exists>'' \<in> set (item_lines demo_fronius)"
proof -
  have g: "gtin demo_panel = ''8680000000017''" "gtin demo_fronius = ''''"
    by (simp_all add: demo_panel_def demo_fronius_def)
  have e: "escape_xml ''8680000000017'' = ''8680000000017''"
    by (simp add: escape_xml_def replace_char_def)
  from gtin_or_identifier_exists [OF demo_values(1,2)]
    gtin_or_identifier_exists [OF demo_values(3,4)] g e
  show ?thesis by simp
qed




text \<open>
  C10. A record the extractor returns has one of the three availability states and one
  of the three conditions. The serializer writes the two values between their tags as
  they are (lines 7 and 8 of the item, counted from 0); escaping would not change them,
  and each reads back as itself, so the two elements are well-formed.
\<close>

theorem availability_condition_enumerated:
  "scrape_product net url = Some p
   \<Longrightarrow> availability p \<in> set availability_values
       \<and> condition p \<in> set condition_values
       \<and> item_lines p ! 7 = ''      <g:availability>'' @ availability p @ ''</g:availability>''
       \<and> item_lines p ! 8 = ''      <g:condition>'' @ condition p @ ''</g:condition>''
       \<and> escape_xml (availability p) = availability p
       \<and> escape_xml (condition p) = condition p
       \<and> xml_unescape (availability p) = Some (availability p)
       \<and> xml_unescape (condition p) = Some (condition p)"
proof -
  assume sp: "scrape_product net url = Some p"
  have a: "availability p \<in> set availability_values"
    and c: "condition p \<in> set condition_values"
    using scrape_product_record(7,8) [OF sp] by simp_all
  have plain: "escape_xml v = v \<and> xml_unescape v = Some v"
    if "v \<in> set availability_values \<or> v \<in> set condition_values" for v
    using that
    by (auto simp: availability_values_def condition_values_def escape_xml_def replace_char_def
        xml_char_def)
  have l7: "item_lines p ! 7 = ''      <g:availability>'' @ availability p @ ''</g:availability>''"
    by (simp add: item_lines_def)
  have l8: "item_lines p ! 8 = ''      <g:condition>'' @ condition p @ ''</g:condition>''"
    by (simp add: item_lines_def)
  from a c plain [of "availability p"] plain [of "condition p"] l7 l8 show ?thesis
    by simp
qed

theorem availability_condition_enumerated_witness:
  "scrape_product (demo_web 3) (demo_urls ! 3) = Some demo_panel
   \<and> availability demo_panel = ''out_of_stock''
   \<and> condition demo_panel = ''used''
   \<and> item_lines demo_panel ! 7 = ''      <g:availability>out_of_stock</g:availability>''
   \<and> item_lines demo_panel ! 8 = ''      <g:condition>used</g:condition>''
   \<and> xml_unescape (availability demo_panel) = Some ''out_of_stock''"
proof -
  have v: "availability demo_panel = ''out_of_stock''" "condition demo_panel = ''used''"
    by (simp_all add: demo_panel_def)
  from availability_condition_enumerated [OF demo_scrape_panel] demo_scrape_panel v
  show ?thesis by simp
qed

end
